theory Spec2Isabelle
  imports Complex_Main "HOL-Library.Multiset"
begin

section \<open>Common types\<close>

text \<open>
  A \<^verbatim>\<open>datetime\<close> is a naive UTC instant, as \<^verbatim>\<open>datetime.utcnow()\<close> returns it, counted in
  microseconds: comparison of two datetimes is comparison of the counts, and the
  \<^verbatim>\<open>days\<close> attribute of a difference is its floor division by one day.  Every call of
  \<^verbatim>\<open>datetime.utcnow()\<close> in the source is an argument of the model, one argument per call.
\<close>

type_synonym datetime = int

definition microseconds_per_day :: int where
  "microseconds_per_day = 86400000000"

definition timedelta_days :: "datetime \<Rightarrow> datetime \<Rightarrow> int" where
  \<comment> \<open>\<^verbatim>\<open>(a - b).days\<close>\<close>
  "timedelta_days a b = (a - b) div microseconds_per_day"

text \<open>
  The exceptions the modelled code raises.  \<^verbatim>\<open>BadRequest\<close>, \<^verbatim>\<open>NotFound\<close> and \<^verbatim>\<open>Conflict\<close>
  are the werkzeug classes the services raise on purpose; \<^verbatim>\<open>ValueError\<close> and
  \<^verbatim>\<open>ZeroDivisionError\<close> are the built-in ones.
\<close>

datatype error =
    ValueError string
  | BadRequest string
  | NotFound string
  | Conflict string
  | ZeroDivisionError

section \<open>Quotation service: \<^verbatim>\<open>models/quotation.py\<close>\<close>

text \<open>
  The columns of \<^verbatim>\<open>Quote\<close>.  \<^verbatim>\<open>status\<close> is a string column (\<^verbatim>\<open>String(20)\<close>), not an enum, so
  every string is a possible status.  Amounts are in hundredths (\<^verbatim>\<open>Numeric(12, 2)\<close>).  The JSON
  text columns and the item relationship are not read by the lifecycle methods and are left out.
\<close>

record Quote =
  quote_quote_id :: string
  quote_customer_id :: "string option"
  quote_mode :: string
  quote_service :: string
  quote_origin :: string
  quote_destination :: string
  quote_route_key :: string
  quote_currency :: string
  quote_base_amount :: int
  quote_total_amount :: int
  quote_status :: string
  quote_valid_until :: datetime
  quote_issued_at :: "datetime option"
  quote_accepted_at :: "datetime option"
  quote_pdf_path :: "string option"

definition Quote_is_valid :: "datetime \<Rightarrow> Quote \<Rightarrow> bool" where
  "Quote_is_valid now q =
     (now \<le> quote_valid_until q \<and> quote_status q \<in> set [''ISSUED'', ''DRAFT''])"

definition Quote_is_expired :: "datetime \<Rightarrow> Quote \<Rightarrow> bool" where
  "Quote_is_expired now q = (now > quote_valid_until q)"

definition Quote_accept :: "datetime \<Rightarrow> datetime \<Rightarrow> Quote \<Rightarrow> error + Quote" where
  \<comment> \<open>\<open>t_check\<close> is the clock read by \<^verbatim>\<open>is_valid\<close>, \<open>t_accept\<close> the one stored in \<^verbatim>\<open>accepted_at\<close>.\<close>
  "Quote_accept t_check t_accept q =
     (if \<not> Quote_is_valid t_check q
      then Inl (ValueError ''Cannot accept expired or invalid quote'')
      else Inr (q\<lparr>quote_status := ''ACCEPTED'', quote_accepted_at := Some t_accept\<rparr>))"

definition Quote_issue :: "datetime \<Rightarrow> Quote \<Rightarrow> error + Quote" where
  "Quote_issue now q =
     (if quote_status q \<noteq> ''DRAFT''
      then Inl (ValueError ''Can only issue draft quotes'')
      else Inr (q\<lparr>quote_status := ''ISSUED'', quote_issued_at := Some now\<rparr>))"

text \<open>
  The \<^verbatim>\<open>except\<close> clauses of the route \<^verbatim>\<open>accept_quote\<close> (\<^verbatim>\<open>routes/quotation.py\<close>): a
  \<^verbatim>\<open>ValueError\<close> becomes status 400, any other exception status 500.
\<close>

fun accept_quote_status_code :: "error \<Rightarrow> nat" where
  "accept_quote_status_code (ValueError _) = 400"
| "accept_quote_status_code _ = 500"

definition succeeds :: "error + 'a \<Rightarrow> bool" where
  "succeeds r = (case r of Inl _ \<Rightarrow> False | Inr _ \<Rightarrow> True)"

section \<open>Notifications service: \<^verbatim>\<open>models/notification.py\<close>\<close>

datatype NotificationStatus = PENDING | SENT | DELIVERED | READ | FAILED | CANCELLED

datatype NotificationType =
    QUOTE_CREATED | QUOTE_UPDATED | QUOTE_EXPIRED
  | BOOKING_CONFIRMED | BOOKING_CANCELLED
  | SHIPMENT_STATUS_UPDATE | SHIPMENT_DELIVERED
  | PAYMENT_DUE | PAYMENT_RECEIVED
  | DOCUMENT_READY | SYSTEM_ALERT | MARKETING | REMINDER | WELCOME | PASSWORD_RESET

datatype NotificationPriority = PRIORITY_LOW | PRIORITY_NORMAL | PRIORITY_HIGH | PRIORITY_URGENT

datatype NotificationChannel = EMAIL | SMS | PUSH | IN_APP | WEBHOOK

text \<open>
  \<^verbatim>\<open>NotificationDelivery\<close>: the fresh uuid of the attempt and the provider's response are not
  read by any modelled method and are left out; the status is a plain string in the source.
\<close>

record NotificationDelivery =
  nd_notification_id :: string
  nd_channel :: NotificationChannel
  nd_status :: string
  nd_attempt_number :: nat
  nd_sent_at :: "datetime option"
  nd_delivered_at :: "datetime option"
  nd_failed_at :: "datetime option"
  nd_error_message :: "string option"
  nd_created_at :: datetime

record Notification =
  n_id :: string
  n_recipient_id :: string
  n_notification_type :: NotificationType
  n_title :: string
  n_content :: string
  n_channels :: "NotificationChannel list"
  n_priority :: NotificationPriority
  n_scheduled_at :: "datetime option"
  n_expires_at :: "datetime option"
  n_status :: NotificationStatus
  n_sent_at :: "datetime option"
  n_delivered_at :: "datetime option"
  n_read_at :: "datetime option"
  n_delivery_attempts :: "NotificationDelivery list"
  n_max_attempts :: nat
  n_metadata :: "(string \<times> string) list"
  n_created_by :: string
  n_created_at :: datetime
  n_updated_at :: datetime

definition Notification_mark_as_read :: "datetime \<Rightarrow> datetime \<Rightarrow> Notification \<Rightarrow> Notification" where
  \<comment> \<open>\<open>t_read\<close> and \<open>t_upd\<close> are the two clock readings of the method, in order.\<close>
  "Notification_mark_as_read t_read t_upd n =
     n\<lparr>n_status := READ, n_read_at := Some t_read, n_updated_at := t_upd\<rparr>"

text \<open>
  A Python \<^verbatim>\<open>dict\<close> literal is an association list, \<^verbatim>\<open>d.get(k, default)\<close> its lookup.
\<close>

definition dict_get :: "('k \<times> 'v) list \<Rightarrow> 'k \<Rightarrow> 'v \<Rightarrow> 'v" where
  "dict_get d k dflt = (case map_of d k of None \<Rightarrow> dflt | Some v \<Rightarrow> v)"

section \<open>CRM service: \<^verbatim>\<open>models/lead.py\<close>\<close>

datatype LeadStatus =
  NEW | CONTACTED | QUALIFIED | PROPOSAL_SENT | NEGOTIATION | CONVERTED | LOST | DISQUALIFIED

datatype LeadSource =
    WEBSITE | REFERRAL | COLD_CALL | EMAIL_CAMPAIGN | SOCIAL_MEDIA | TRADE_SHOW
  | ADVERTISEMENT | PARTNER | OTHER

datatype LeadPriority = LOW | MEDIUM | HIGH | URGENT

text \<open>
  The fields of \<^verbatim>\<open>Lead\<close> that identify it or enter its score.  \<^verbatim>\<open>estimated_value\<close> is an optional
  float, read here as a real number (the score only compares it with integer thresholds).
\<close>

record Lead =
  lead_id :: string
  lead_number :: string
  lead_company_name :: string
  lead_contact_name :: string
  lead_email :: string
  lead_source :: LeadSource
  lead_status :: LeadStatus
  lead_priority :: LeadPriority
  lead_estimated_value :: "real option"
  lead_probability :: int
  lead_last_contact_date :: "datetime option"
  lead_created_at :: datetime
  lead_updated_at :: datetime

definition source_scores :: "(LeadSource \<times> int) list" where
  "source_scores =
     [(REFERRAL, 20), (PARTNER, 15), (WEBSITE, 10), (TRADE_SHOW, 10), (SOCIAL_MEDIA, 5),
      (EMAIL_CAMPAIGN, 5), (COLD_CALL, 3), (ADVERTISEMENT, 3), (OTHER, 0)]"

definition priority_scores :: "(LeadPriority \<times> int) list" where
  "priority_scores = [(URGENT, 15), (HIGH, 10), (MEDIUM, 5), (LOW, 0)]"

definition Lead_calculate_score :: "datetime \<Rightarrow> Lead \<Rightarrow> int" where
  \<comment> \<open>The running \<^verbatim>\<open>score\<close> of the method, one binding per assignment.\<close>
  "Lead_calculate_score now l =
     (let score0 = 0;
          score1 = score0 + lead_probability l;
          score2 = score1 + dict_get source_scores (lead_source l) 0;
          score3 = score2 + dict_get priority_scores (lead_priority l) 0;
          score4 =
            (case lead_estimated_value l of
               None \<Rightarrow> score3
             | Some v \<Rightarrow>
                 if v = 0 then score3
                 else if v \<ge> 100000 then score3 + 20
                 else if v \<ge> 50000 then score3 + 15
                 else if v \<ge> 10000 then score3 + 10
                 else if v \<ge> 5000 then score3 + 5
                 else score3);
          score5 =
            (case lead_last_contact_date l of
               None \<Rightarrow> score4
             | Some d \<Rightarrow>
                 (let days_since_contact = timedelta_days now d
                  in if days_since_contact \<le> 7 then score4 + 10
                     else if days_since_contact \<le> 30 then score4 + 5
                     else score4))
      in min score5 100)"

text \<open>The point tables as the specification words them, to compare the method with.\<close>

fun spec_source_points :: "LeadSource \<Rightarrow> int" where
  "spec_source_points REFERRAL = 20"
| "spec_source_points PARTNER = 15"
| "spec_source_points WEBSITE = 10"
| "spec_source_points TRADE_SHOW = 10"
| "spec_source_points SOCIAL_MEDIA = 5"
| "spec_source_points EMAIL_CAMPAIGN = 5"
| "spec_source_points COLD_CALL = 3"
| "spec_source_points ADVERTISEMENT = 3"
| "spec_source_points OTHER = 0"

fun spec_priority_points :: "LeadPriority \<Rightarrow> int" where
  "spec_priority_points URGENT = 15"
| "spec_priority_points HIGH = 10"
| "spec_priority_points MEDIUM = 5"
| "spec_priority_points LOW = 0"

fun spec_value_tier_points :: "real option \<Rightarrow> int" where
  "spec_value_tier_points (Some v) =
     (if v \<ge> 100000 then 20 else if v \<ge> 50000 then 15 else if v \<ge> 10000 then 10
      else if v \<ge> 5000 then 5 else 0)"
| "spec_value_tier_points None = 0"

fun spec_recency_points :: "datetime \<Rightarrow> datetime option \<Rightarrow> int" where
  "spec_recency_points now (Some d) =
     (if timedelta_days now d \<le> 7 then 10 else if timedelta_days now d \<le> 30 then 5 else 0)"
| "spec_recency_points now None = 0"

definition spec_raw_score :: "datetime \<Rightarrow> Lead \<Rightarrow> int" where
  "spec_raw_score now l =
     lead_probability l + spec_source_points (lead_source l)
       + spec_priority_points (lead_priority l)
       + spec_value_tier_points (lead_estimated_value l)
       + spec_recency_points now (lead_last_contact_date l)"

section \<open>Vendor service: \<^verbatim>\<open>models/vendor.py\<close>\<close>

datatype VendorStatus = ACTIVE | INACTIVE | SUSPENDED | PENDING_APPROVAL | REJECTED

text \<open>
  The identity, status and performance fields of \<^verbatim>\<open>Vendor\<close>.  The two ratings are Python floats;
  they are read as real numbers, so the arithmetic of the model is exact.  On the ratings of the
  example (small integers and halves) float arithmetic is exact as well.
\<close>

record Vendor =
  vendor_id :: string
  vendor_number :: string
  vendor_company_name :: string
  vendor_status :: VendorStatus
  vendor_average_rating :: real
  vendor_total_ratings :: int
  vendor_total_shipments :: int
  vendor_on_time_delivery_rate :: real
  vendor_last_activity_date :: "datetime option"
  vendor_updated_at :: datetime

definition Vendor_update_rating :: "datetime \<Rightarrow> Vendor \<Rightarrow> real \<Rightarrow> error + Vendor" where
  \<comment> \<open>Python raises \<^verbatim>\<open>ZeroDivisionError\<close> on a zero divisor, after the count was incremented.\<close>
  "Vendor_update_rating now v new_rating =
     (let total_score = vendor_average_rating v * of_int (vendor_total_ratings v) + new_rating;
          v1 = v\<lparr>vendor_total_ratings := vendor_total_ratings v + 1\<rparr>
      in if vendor_total_ratings v1 = 0 then Inl ZeroDivisionError
         else Inr (v1\<lparr>vendor_average_rating := total_score / of_int (vendor_total_ratings v1),
                       vendor_updated_at := now\<rparr>))"

section \<open>Quotation service: \<^verbatim>\<open>services/pricing_engine.py\<close>\<close>

text \<open>
  A \<^verbatim>\<open>decimal.Decimal\<close> is a signed coefficient and an exponent of ten: \<^verbatim>\<open>Decimal('120.00')\<close> is
  \<open>Decimal 12000 (-2)\<close>.  Multiplication multiplies the coefficients and adds the exponents
  (the context's 28 digits of precision are never reached by the amounts here), and
  \<^verbatim>\<open>quantize\<close> with \<^verbatim>\<open>ROUND_HALF_UP\<close> rescales to the exponent asked for, a tie going away from
  zero.
\<close>

datatype Decimal = Decimal int int

fun Decimal_mul :: "Decimal \<Rightarrow> Decimal \<Rightarrow> Decimal" where
  "Decimal_mul (Decimal c1 e1) (Decimal c2 e2) = Decimal (c1 * c2) (e1 + e2)"

fun quantize_ROUND_HALF_UP :: "Decimal \<Rightarrow> int \<Rightarrow> Decimal" where
  "quantize_ROUND_HALF_UP (Decimal c e) e' =
     (if e \<ge> e' then Decimal (c * 10 ^ nat (e - e')) e'
      else (let d = 10 ^ nat (e' - e);
                q = \<bar>c\<bar> div d;
                r = \<bar>c\<bar> mod d
            in Decimal (sgn c * (if 2 * r \<ge> d then q + 1 else q)) e'))"

fun Decimal_value :: "Decimal \<Rightarrow> rat" where
  "Decimal_value (Decimal c e) =
     (if e \<ge> 0 then of_int c * 10 ^ nat e else of_int c / 10 ^ nat (- e))"

definition route_multipliers :: "(string \<times> Decimal) list" where
  "route_multipliers =
     [(''SGSIN-EGALY'', Decimal 12 (-1)),
      (''SGSIN-USNYC'', Decimal 15 (-1)),
      (''SGSIN-NLRTM'', Decimal 11 (-1))]"

definition fuel_surcharge_of_route :: "string \<Rightarrow> Decimal" where
  \<comment> \<open>The body of the method from the point where \<^verbatim>\<open>route_key\<close> is known.\<close>
  "fuel_surcharge_of_route route_key =
     (let base_rate = Decimal 12000 (-2);
          multiplier = dict_get route_multipliers route_key (Decimal 10 (-1))
      in quantize_ROUND_HALF_UP (Decimal_mul base_rate multiplier) (-2))"

definition get_fuel_surcharge_rate :: "string \<Rightarrow> string \<Rightarrow> Decimal" where
  \<comment> \<open>\<^verbatim>\<open>PricingEngine._get_fuel_surcharge_rate\<close>; the \<^verbatim>\<open>cached\<close> decorator stores and replays
      the value this body computes.\<close>
  "get_fuel_surcharge_rate origin destination =
     fuel_surcharge_of_route (origin @ ''-'' @ destination)"

text \<open>The same amount as the specification words it, over the rationals.\<close>

definition spec_route_multiplier :: "string \<Rightarrow> rat" where
  "spec_route_multiplier route =
     (if route = ''SGSIN-EGALY'' then 12 / 10
      else if route = ''SGSIN-USNYC'' then 15 / 10
      else if route = ''SGSIN-NLRTM'' then 11 / 10
      else 1)"

definition spec_round_half_up_2 :: "rat \<Rightarrow> rat" where
  "spec_round_half_up_2 x = sgn x * of_int \<lfloor>\<bar>x\<bar> * 100 + 1 / 2\<rfloor> / 100"

definition spec_fuel_surcharge :: "string \<Rightarrow> rat" where
  "spec_fuel_surcharge route = spec_round_half_up_2 (120 * spec_route_multiplier route)"

section \<open>Notifications service: preferences and \<^verbatim>\<open>services/notification_service.py\<close>\<close>

text \<open>
  \<^verbatim>\<open>Notification.add_delivery_attempt\<close>: the attempt number counts the earlier attempts on the
  same channel.  The method returns the attempt; the notification is mutated in place, so the
  model returns both.
\<close>

definition Notification_add_delivery_attempt ::
  "datetime \<Rightarrow> datetime \<Rightarrow> Notification \<Rightarrow> NotificationChannel \<Rightarrow> string
   \<Rightarrow> Notification \<times> NotificationDelivery"
where
  \<comment> \<open>\<open>t_created\<close> is the clock read for the attempt's \<^verbatim>\<open>created_at\<close>, \<open>now\<close> the one stored
      in \<^verbatim>\<open>updated_at\<close>.\<close>
  "Notification_add_delivery_attempt t_created now n channel status =
     (let attempt =
            \<lparr>nd_notification_id = n_id n, nd_channel = channel, nd_status = status,
             nd_attempt_number =
               length (filter (\<lambda>d. nd_channel d = channel) (n_delivery_attempts n)) + 1,
             nd_sent_at = None, nd_delivered_at = None, nd_failed_at = None,
             nd_error_message = None, nd_created_at = t_created\<rparr>
      in (n\<lparr>n_delivery_attempts := n_delivery_attempts n @ [attempt], n_updated_at := now\<rparr>,
          attempt))"

text \<open>
  \<^verbatim>\<open>NotificationPreference\<close>: the channel switches, the category switches and the delivery
  settings.
\<close>

record NotificationPreference =
  np_id :: string
  np_user_id :: string
  np_email_enabled :: bool
  np_sms_enabled :: bool
  np_push_enabled :: bool
  np_in_app_enabled :: bool
  np_quote_notifications :: bool
  np_booking_notifications :: bool
  np_shipment_notifications :: bool
  np_payment_notifications :: bool
  np_marketing_notifications :: bool
  np_system_notifications :: bool
  np_email_address :: "string option"
  np_phone_number :: "string option"
  np_timezone :: string
  np_quiet_hours_start :: "string option"
  np_quiet_hours_end :: "string option"
  np_digest_frequency :: string
  np_digest_time :: string

definition is_channel_enabled :: "NotificationPreference \<Rightarrow> NotificationChannel \<Rightarrow> bool" where
  "is_channel_enabled p channel =
     (let channel_map =
            [(EMAIL, np_email_enabled p), (SMS, np_sms_enabled p), (PUSH, np_push_enabled p),
             (IN_APP, np_in_app_enabled p)]
      in dict_get channel_map channel False)"

definition is_type_enabled :: "NotificationPreference \<Rightarrow> NotificationType \<Rightarrow> bool" where
  "is_type_enabled p notification_type =
     (let type_map =
            [(QUOTE_CREATED, np_quote_notifications p),
             (QUOTE_UPDATED, np_quote_notifications p),
             (QUOTE_EXPIRED, np_quote_notifications p),
             (BOOKING_CONFIRMED, np_booking_notifications p),
             (BOOKING_CANCELLED, np_booking_notifications p),
             (SHIPMENT_STATUS_UPDATE, np_shipment_notifications p),
             (SHIPMENT_DELIVERED, np_shipment_notifications p),
             (PAYMENT_DUE, np_payment_notifications p),
             (PAYMENT_RECEIVED, np_payment_notifications p),
             (MARKETING, np_marketing_notifications p),
             (SYSTEM_ALERT, np_system_notifications p)]
      in dict_get type_map notification_type True)"

text \<open>
  \<^verbatim>\<open>str.upper()\<close> on ASCII text: the arguments parsed below are enum names, and the model takes
  them to be ASCII strings.
\<close>

definition char_upper :: "char \<Rightarrow> char" where
  "char_upper c =
     (let k = (of_char c :: nat) in if 97 \<le> k \<and> k \<le> 122 then char_of (k - 32) else c)"

definition upper :: "string \<Rightarrow> string" where
  "upper s = map char_upper s"

text \<open>Looking an enum member up by its value, as \<^verbatim>\<open>NotificationType(value)\<close> does.\<close>

definition NotificationType_of_value :: "string \<Rightarrow> NotificationType option" where
  "NotificationType_of_value =
     map_of
       [(''QUOTE_CREATED'', QUOTE_CREATED), (''QUOTE_UPDATED'', QUOTE_UPDATED),
        (''QUOTE_EXPIRED'', QUOTE_EXPIRED), (''BOOKING_CONFIRMED'', BOOKING_CONFIRMED),
        (''BOOKING_CANCELLED'', BOOKING_CANCELLED),
        (''SHIPMENT_STATUS_UPDATE'', SHIPMENT_STATUS_UPDATE),
        (''SHIPMENT_DELIVERED'', SHIPMENT_DELIVERED), (''PAYMENT_DUE'', PAYMENT_DUE),
        (''PAYMENT_RECEIVED'', PAYMENT_RECEIVED), (''DOCUMENT_READY'', DOCUMENT_READY),
        (''SYSTEM_ALERT'', SYSTEM_ALERT), (''MARKETING'', MARKETING), (''REMINDER'', REMINDER),
        (''WELCOME'', WELCOME), (''PASSWORD_RESET'', PASSWORD_RESET)]"

definition NotificationPriority_of_value :: "string \<Rightarrow> NotificationPriority option" where
  "NotificationPriority_of_value =
     map_of
       [(''LOW'', PRIORITY_LOW), (''NORMAL'', PRIORITY_NORMAL), (''HIGH'', PRIORITY_HIGH),
        (''URGENT'', PRIORITY_URGENT)]"

definition NotificationChannel_of_value :: "string \<Rightarrow> NotificationChannel option" where
  "NotificationChannel_of_value =
     map_of
       [(''EMAIL'', EMAIL), (''SMS'', SMS), (''PUSH'', PUSH), (''IN_APP'', IN_APP),
        (''WEBHOOK'', WEBHOOK)]"

fun parse_channel_list :: "string list \<Rightarrow> error + NotificationChannel list" where
  \<comment> \<open>The loop over \<^verbatim>\<open>channels\<close>: the first unknown name raises.\<close>
  "parse_channel_list [] = Inr []"
| "parse_channel_list (channel # rest) =
     (case NotificationChannel_of_value (upper channel) of
        None \<Rightarrow> Inl (BadRequest (''Invalid channel: '' @ channel))
      | Some c \<Rightarrow>
          (case parse_channel_list rest of Inl e \<Rightarrow> Inl e | Inr cs \<Rightarrow> Inr (c # cs)))"

definition parse_channels :: "string list option \<Rightarrow> error + NotificationChannel list" where
  \<comment> \<open>\<^verbatim>\<open>if channels:\<close> is false for \<^verbatim>\<open>None\<close> and for the empty list.\<close>
  "parse_channels channels =
     (case channels of
        None \<Rightarrow> Inr [EMAIL]
      | Some [] \<Rightarrow> Inr [EMAIL]
      | Some cs \<Rightarrow> parse_channel_list cs)"

definition parse_scheduled_at ::
  "(string \<Rightarrow> datetime option) \<Rightarrow> string option \<Rightarrow> error + datetime option" where
  \<comment> \<open>\<open>fromisoformat\<close> stands for \<^verbatim>\<open>datetime.fromisoformat(s.replace('Z', '+00:00'))\<close>, \<open>None\<close>
      where the library raises \<^verbatim>\<open>ValueError\<close>.\<close>
  "parse_scheduled_at fromisoformat scheduled_at =
     (case scheduled_at of
        None \<Rightarrow> Inr None
      | Some s \<Rightarrow>
          if s = [] then Inr None
          else (case fromisoformat s of
                  None \<Rightarrow> Inl (BadRequest ''Invalid scheduled_at format'')
                | Some t \<Rightarrow> Inr (Some t)))"

fun add_delivery_attempts ::
  "(nat \<Rightarrow> datetime) \<Rightarrow> nat \<Rightarrow> Notification \<Rightarrow> NotificationChannel list \<Rightarrow> Notification" where
  \<comment> \<open>The loop \<^verbatim>\<open>for channel in parsed_channels: notification.add_delivery_attempt(channel)\<close>;
      \<open>clock k\<close> is the \<open>k\<close>-th reading of the clock during the call.\<close>
  "add_delivery_attempts clock k n [] = n"
| "add_delivery_attempts clock k n (channel # rest) =
     add_delivery_attempts clock (k + 2)
       (fst (Notification_add_delivery_attempt (clock k) (clock (Suc k)) n channel ''PENDING''))
       rest"

definition create_notification ::
  "NotificationPreference option \<Rightarrow> (string \<Rightarrow> datetime option) \<Rightarrow> (nat \<Rightarrow> datetime) \<Rightarrow> string
   \<Rightarrow> string \<Rightarrow> string \<Rightarrow> string \<Rightarrow> string \<Rightarrow> string list option \<Rightarrow> string \<Rightarrow> string option
   \<Rightarrow> (string \<times> string) list \<Rightarrow> string \<Rightarrow> error + Notification"
where
  \<comment> \<open>\<^verbatim>\<open>NotificationService.create_notification\<close>.  \<open>preferences\<close> is what
      \<^verbatim>\<open>self.get_user_preferences(recipient_id)\<close> returns, \<open>new_id\<close> the fresh uuid.  Saving,
      caching and publishing follow and do not change the notification returned.\<close>
  "create_notification preferences fromisoformat clock new_id
       recipient_id notification_type title content channels priority scheduled_at
       metadata created_by =
     (case NotificationType_of_value (upper notification_type) of
        None \<Rightarrow> Inl (BadRequest (''Invalid notification type: '' @ notification_type))
      | Some parsed_type \<Rightarrow>
     (case NotificationPriority_of_value (upper priority) of
        None \<Rightarrow> Inl (BadRequest (''Invalid priority: '' @ priority))
      | Some parsed_priority \<Rightarrow>
     (case parse_channels channels of
        Inl e \<Rightarrow> Inl e
      | Inr requested \<Rightarrow>
     (case parse_scheduled_at fromisoformat scheduled_at of
        Inl e \<Rightarrow> Inl e
      | Inr parsed_scheduled_at \<Rightarrow>
          (let parsed_channels =
                 (case preferences of
                    None \<Rightarrow> requested
                  | Some p \<Rightarrow>
                      (let enabled_channels =
                             filter (\<lambda>channel. is_channel_enabled p channel
                                       \<and> is_type_enabled p parsed_type) requested
                       in if enabled_channels = [] then [IN_APP] else enabled_channels));
               notification =
                 \<lparr>n_id = new_id, n_recipient_id = recipient_id,
                  n_notification_type = parsed_type, n_title = title, n_content = content,
                  n_channels = parsed_channels, n_priority = parsed_priority,
                  n_scheduled_at = parsed_scheduled_at, n_expires_at = None,
                  n_status = PENDING, n_sent_at = None, n_delivered_at = None,
                  n_read_at = None, n_delivery_attempts = [], n_max_attempts = 3,
                  n_metadata = metadata, n_created_by = created_by,
                  n_created_at = clock 0, n_updated_at = clock 1\<rparr>
           in Inr (add_delivery_attempts clock 2 notification parsed_channels))))))"

definition default_preferences :: "string \<Rightarrow> NotificationPreference" where
  \<comment> \<open>What \<^verbatim>\<open>_load_user_preferences\<close> builds: the dataclass defaults, SMS switched off.\<close>
  "default_preferences user_id =
     \<lparr>np_id = ''p-1'', np_user_id = user_id, np_email_enabled = True, np_sms_enabled = False,
      np_push_enabled = True, np_in_app_enabled = True, np_quote_notifications = True,
      np_booking_notifications = True, np_shipment_notifications = True,
      np_payment_notifications = True, np_marketing_notifications = False,
      np_system_notifications = True, np_email_address = None, np_phone_number = None,
      np_timezone = ''UTC'', np_quiet_hours_start = None, np_quiet_hours_end = None,
      np_digest_frequency = ''NONE'', np_digest_time = ''09:00''\<rparr>"

section \<open>Booking service: \<^verbatim>\<open>models/booking.py\<close>\<close>



datatype ContainerStatus = AVAILABLE | ALLOCATED | IN_USE | MAINTENANCE | RETIRED


















section \<open>Booking service: \<^verbatim>\<open>services/booking_engine.py\<close>\<close>




















section \<open>Scenarios\<close>



definition new_vendor :: Vendor where
  \<comment> \<open>A vendor as the dataclass defaults make it: never rated, pending approval.\<close>
  "new_vendor =
     \<lparr>vendor_id = ''v-1'', vendor_number = ''VN20240101V-1'', vendor_company_name = ''Acme'',
      vendor_status = PENDING_APPROVAL, vendor_average_rating = 0, vendor_total_ratings = 0,
      vendor_total_shipments = 0, vendor_on_time_delivery_rate = 0,
      vendor_last_activity_date = None, vendor_updated_at = 0\<rparr>"










section \<open>Quote lifecycle\<close>

text \<open>
  Claim C1.  \<^verbatim>\<open>accept()\<close> succeeds exactly when the clock is not after \<^verbatim>\<open>valid_until\<close> and the
  status is \<^verbatim>\<open>ISSUED\<close> or \<^verbatim>\<open>DRAFT\<close>; it then sets the status to \<^verbatim>\<open>ACCEPTED\<close> and records
  \<^verbatim>\<open>accepted_at\<close>, changing nothing else.  Otherwise it raises the \<^verbatim>\<open>ValueError\<close> that the accept
  route answers with status 400, the invalid-input kind of error.  A \<^verbatim>\<open>DRAFT\<close> quote inside its
  validity window is accepted without ever being issued, and \<^verbatim>\<open>issue()\<close> raises the same kind of
  error unless the status is \<^verbatim>\<open>DRAFT\<close>.
\<close>

theorem Quote_accept_issue:
  "succeeds (Quote_accept t_check t_accept q) =
     (\<not> t_check > quote_valid_until q \<and> (quote_status q = ''ISSUED'' \<or> quote_status q = ''DRAFT''))
   \<and> Quote_accept t_check t_accept q =
     (if \<not> Quote_is_expired t_check q \<and> (quote_status q = ''ISSUED'' \<or> quote_status q = ''DRAFT'')
      then Inr (q\<lparr>quote_status := ''ACCEPTED'', quote_accepted_at := Some t_accept\<rparr>)
      else Inl (ValueError ''Cannot accept expired or invalid quote''))
   \<and> accept_quote_status_code (ValueError ''Cannot accept expired or invalid quote'') = 400
   \<and> Quote_accept t_check t_accept (q\<lparr>quote_status := ''DRAFT'', quote_issued_at := None,
       quote_valid_until := t_check + d\<rparr>) =
     (if 0 \<le> d
      then Inr (q\<lparr>quote_status := ''ACCEPTED'', quote_issued_at := None,
                 quote_valid_until := t_check + d, quote_accepted_at := Some t_accept\<rparr>)
      else Inl (ValueError ''Cannot accept expired or invalid quote''))
   \<and> Quote_issue now q =
     (if quote_status q = ''DRAFT''
      then Inr (q\<lparr>quote_status := ''ISSUED'', quote_issued_at := Some now\<rparr>)
      else Inl (ValueError ''Can only issue draft quotes''))"
  by (auto simp: Quote_accept_def Quote_issue_def Quote_is_valid_def Quote_is_expired_def
        succeeds_def)

section \<open>Reading a notification\<close>

text \<open>
  Claim C9.  \<^verbatim>\<open>mark_as_read()\<close> has no precondition: from every status, \<^verbatim>\<open>FAILED\<close> and
  \<^verbatim>\<open>CANCELLED\<close> included, it sets the status to \<^verbatim>\<open>READ\<close> and \<^verbatim>\<open>read_at\<close> to the current time.
\<close>

theorem Notification_mark_as_read_unconditional:
  "n_status (Notification_mark_as_read t_read t_upd (n\<lparr>n_status := s\<rparr>)) = READ
   \<and> n_read_at (Notification_mark_as_read t_read t_upd (n\<lparr>n_status := s\<rparr>)) = Some t_read
   \<and> Notification_mark_as_read t_read t_upd n =
     n\<lparr>n_status := READ, n_read_at := Some t_read, n_updated_at := t_upd\<rparr>"
  by (simp add: Notification_mark_as_read_def)

section \<open>Lead scoring\<close>

lemma source_scores_get: "dict_get source_scores s 0 = spec_source_points s"
  by (cases s) (simp_all add: dict_get_def source_scores_def)

lemma priority_scores_get: "dict_get priority_scores p 0 = spec_priority_points p"
  by (cases p) (simp_all add: dict_get_def priority_scores_def)

lemma Lead_calculate_score_eq: "Lead_calculate_score now l = min (spec_raw_score now l) 100"
  unfolding Lead_calculate_score_def spec_raw_score_def source_scores_get priority_scores_get
  by (cases "lead_estimated_value l"; cases "lead_last_contact_date l")
     (simp_all add: Let_def)

text \<open>
  Claim C3.  For every lead, \<^verbatim>\<open>calculate_score()\<close> is the probability plus the source, priority,
  value-tier and recency points of the specification's tables, capped at 100; a lead with
  probability 100, source \<^verbatim>\<open>REFERRAL\<close>, priority \<^verbatim>\<open>URGENT\<close>, estimated value 150000 and last
  contact now has the raw sum 165 and scores exactly 100.
\<close>

theorem Lead_calculate_score_spec:
  "Lead_calculate_score now l =
     min (lead_probability l + spec_source_points (lead_source l)
            + spec_priority_points (lead_priority l)
            + spec_value_tier_points (lead_estimated_value l)
            + spec_recency_points now (lead_last_contact_date l)) 100
   \<and> spec_raw_score now (l\<lparr>lead_probability := 100, lead_source := REFERRAL,
        lead_priority := URGENT, lead_estimated_value := Some 150000,
        lead_last_contact_date := Some now\<rparr>) = 165
   \<and> Lead_calculate_score now (l\<lparr>lead_probability := 100, lead_source := REFERRAL,
        lead_priority := URGENT, lead_estimated_value := Some 150000,
        lead_last_contact_date := Some now\<rparr>) = 100"
  by (simp add: Lead_calculate_score_eq spec_raw_score_def timedelta_days_def)

section \<open>Vendor ratings\<close>




text \<open>
  Claim C8.  On a vendor whose count of ratings is not negative, \<^verbatim>\<open>update_rating\<close> never divides
  by zero: the count is incremented first, so the divisor is at least 1 and the call returns.
  On a vendor with average 0 and count 0 the new average is the new rating.
\<close>

theorem Vendor_update_rating_no_zero_division:
  "(0 \<le> vendor_total_ratings v \<longrightarrow>
      1 \<le> vendor_total_ratings (v\<lparr>vendor_total_ratings := vendor_total_ratings v + 1\<rparr>)
      \<and> succeeds (Vendor_update_rating now v r)
      \<and> Vendor_update_rating now v r \<noteq> Inl ZeroDivisionError)
   \<and> (vendor_average_rating v = 0 \<and> vendor_total_ratings v = 0 \<longrightarrow>
        Vendor_update_rating now v r =
          Inr (v\<lparr>vendor_total_ratings := 1, vendor_average_rating := r,
                 vendor_updated_at := now\<rparr>))"
  by (simp add: Vendor_update_rating_def Let_def succeeds_def)

theorem Vendor_update_rating_no_zero_division_witness:
  "succeeds (Vendor_update_rating 7 (new_vendor\<lparr>vendor_total_ratings := 25,
       vendor_average_rating := 42 / 10\<rparr>) 5)
   \<and> Vendor_update_rating 7 new_vendor 3 =
        Inr (new_vendor\<lparr>vendor_total_ratings := 1, vendor_average_rating := 3,
               vendor_updated_at := 7\<rparr>)"
  using Vendor_update_rating_no_zero_division
          [of "new_vendor\<lparr>vendor_total_ratings := 25, vendor_average_rating := 42 / 10\<rparr>" 7 5]
        Vendor_update_rating_no_zero_division [of new_vendor 7 3]
  by (simp add: new_vendor_def)

section \<open>Fuel surcharge\<close>

lemma fuel_surcharge_of_route_cases:
  "fuel_surcharge_of_route k =
     (if k = ''SGSIN-EGALY'' then Decimal 14400 (-2)
      else if k = ''SGSIN-USNYC'' then Decimal 18000 (-2)
      else if k = ''SGSIN-NLRTM'' then Decimal 13200 (-2)
      else Decimal 12000 (-2))"
  by (simp add: fuel_surcharge_of_route_def dict_get_def route_multipliers_def Let_def)

lemma floor_half_rat: "\<lfloor>(1::rat) / 2\<rfloor> = 0"
  by (simp add: floor_eq_iff)

text \<open>
  Claim C5.  For every origin and destination the fuel surcharge is 120.00 times the multiplier
  of the route \<^verbatim>\<open>origin-destination\<close> (1.2, 1.5 and 1.1 for the three listed lanes, 1.0 for any
  other), rounded half-up to two decimals: 144.00 for \<^verbatim>\<open>SGSIN-EGALY\<close> and 120.00 for every
  unlisted route.
\<close>

theorem get_fuel_surcharge_rate_spec:
  "Decimal_value (get_fuel_surcharge_rate origin destination) =
     spec_fuel_surcharge (origin @ ''-'' @ destination)
   \<and> get_fuel_surcharge_rate ''SGSIN'' ''EGALY'' = Decimal 14400 (-2)
   \<and> get_fuel_surcharge_rate origin destination =
       (if origin @ ''-'' @ destination = ''SGSIN-EGALY'' then Decimal 14400 (-2)
        else if origin @ ''-'' @ destination = ''SGSIN-USNYC'' then Decimal 18000 (-2)
        else if origin @ ''-'' @ destination = ''SGSIN-NLRTM'' then Decimal 13200 (-2)
        else Decimal 12000 (-2))"
proof -
  have value_eq: "Decimal_value (fuel_surcharge_of_route k) = spec_fuel_surcharge k" for k
    unfolding fuel_surcharge_of_route_cases spec_fuel_surcharge_def spec_route_multiplier_def
      spec_round_half_up_2_def
    by (simp add: floor_half_rat)
  have listed: "get_fuel_surcharge_rate ''SGSIN'' ''EGALY'' = Decimal 14400 (-2)"
    by (simp add: get_fuel_surcharge_rate_def fuel_surcharge_of_route_cases)
  show ?thesis
    unfolding get_fuel_surcharge_rate_def [of origin destination]
    using value_eq listed fuel_surcharge_of_route_cases by blast
qed

section \<open>Notification channels and preferences\<close>

lemma add_delivery_attempts_channels:
  "map nd_channel (n_delivery_attempts (add_delivery_attempts clock k n cs)) =
     map nd_channel (n_delivery_attempts n) @ cs"
  by (induction cs arbitrary: n k) (simp_all add: Notification_add_delivery_attempt_def Let_def)

lemma add_delivery_attempts_n_channels:
  "n_channels (add_delivery_attempts clock k n cs) = n_channels n"
  by (induction cs arbitrary: n k) (simp_all add: Notification_add_delivery_attempt_def Let_def)

lemma add_delivery_attempts_n_type:
  "n_notification_type (add_delivery_attempts clock k n cs) = n_notification_type n"
  by (induction cs arbitrary: n k) (simp_all add: Notification_add_delivery_attempt_def Let_def)

lemma is_channel_enabled_SMS: "is_channel_enabled p SMS = np_sms_enabled p"
  by (simp add: is_channel_enabled_def dict_get_def)

lemma create_notification_channels:
  assumes "create_notification (Some p) fromisoformat clock new_id recipient_id ntype title
             content channels priority scheduled_at metadata created_by = Inr n"
  shows "\<exists>requested.
           parse_channels channels = Inr requested
           \<and> NotificationType_of_value (upper ntype) = Some (n_notification_type n)
           \<and> n_channels n =
               (if filter (\<lambda>c. is_channel_enabled p c
                            \<and> is_type_enabled p (n_notification_type n)) requested = []
                then [IN_APP]
                else filter (\<lambda>c. is_channel_enabled p c
                              \<and> is_type_enabled p (n_notification_type n)) requested)
           \<and> map nd_channel (n_delivery_attempts n) = n_channels n"
  using assms unfolding create_notification_def
  by (auto split: option.splits sum.splits
        simp: Let_def add_delivery_attempts_channels add_delivery_attempts_n_channels
          add_delivery_attempts_n_type)

text \<open>
  Claim C6.  When the recipient has a preference record and the call returns a notification,
  its channels are the requested channels that pass both the channel switch and the category
  switch of the record, in the order requested, or the single channel \<^verbatim>\<open>IN_APP\<close> when none
  passes; one delivery attempt is recorded per final channel, in order.  So with SMS switched
  off no attempt is on \<^verbatim>\<open>SMS\<close>, and when every requested channel is filtered out there is
  exactly one attempt, on \<^verbatim>\<open>IN_APP\<close>.
\<close>

theorem create_notification_narrows_channels:
  assumes "create_notification (Some p) fromisoformat clock new_id recipient_id ntype title
             content channels priority scheduled_at metadata created_by = Inr n"
  shows "\<exists>requested enabled.
           parse_channels channels = Inr requested
           \<and> enabled = filter (\<lambda>c. is_channel_enabled p c
                                 \<and> is_type_enabled p (n_notification_type n)) requested
           \<and> NotificationType_of_value (upper ntype) = Some (n_notification_type n)
           \<and> n_channels n = (if enabled = [] then [IN_APP] else enabled)
           \<and> map nd_channel (n_delivery_attempts n) = n_channels n
           \<and> (\<not> np_sms_enabled p \<longrightarrow> SMS \<notin> set (map nd_channel (n_delivery_attempts n)))
           \<and> (enabled = [] \<longrightarrow>
                n_channels n = [IN_APP] \<and> map nd_channel (n_delivery_attempts n) = [IN_APP])"
proof -
  from create_notification_channels [OF assms] obtain requested where
    req: "parse_channels channels = Inr requested" and
    ty: "NotificationType_of_value (upper ntype) = Some (n_notification_type n)" and
    ch: "n_channels n =
           (if filter (\<lambda>c. is_channel_enabled p c
                        \<and> is_type_enabled p (n_notification_type n)) requested = []
            then [IN_APP]
            else filter (\<lambda>c. is_channel_enabled p c
                          \<and> is_type_enabled p (n_notification_type n)) requested)" and
    att: "map nd_channel (n_delivery_attempts n) = n_channels n"
    by blast
  let ?enabled = "filter (\<lambda>c. is_channel_enabled p c
                          \<and> is_type_enabled p (n_notification_type n)) requested"
  have sms: "\<not> np_sms_enabled p \<longrightarrow> SMS \<notin> set (n_channels n)"
    unfolding ch by (auto simp: is_channel_enabled_SMS)
  have none: "?enabled = [] \<longrightarrow> n_channels n = [IN_APP]"
    unfolding ch by simp
  show ?thesis
    using req ty ch att sms none by (intro exI [of _ requested] exI [of _ ?enabled]) simp
qed

theorem create_notification_narrows_channels_witness:
  "\<exists>n. create_notification (Some (default_preferences ''u-1'')) (\<lambda>s. None) (\<lambda>k. int k) ''n-1''
          ''u-1'' ''quote_created'' ''Quote'' ''Ready'' (Some [''email'', ''sms'']) ''normal''
          None [] ''system'' = Inr n
        \<and> n_channels n = [EMAIL]
        \<and> map nd_channel (n_delivery_attempts n) = [EMAIL]
        \<and> SMS \<notin> set (map nd_channel (n_delivery_attempts n))"
proof -
  let ?call = "create_notification (Some (default_preferences ''u-1'')) (\<lambda>s. None)
                 (\<lambda>k. int k) ''n-1'' ''u-1'' ''quote_created'' ''Quote'' ''Ready''
                 (Some [''email'', ''sms'']) ''normal'' None [] ''system''"
  have "succeeds ?call"
    by code_simp
  then obtain n where n: "?call = Inr n"
    by (cases ?call) (simp_all add: succeeds_def)
  have requested: "parse_channels (Some [''email'', ''sms'']) = Inr [EMAIL, SMS]"
    by code_simp
  have ntype: "NotificationType_of_value (upper ''quote_created'') = Some QUOTE_CREATED"
    by code_simp
  have enabled:
    "filter (\<lambda>c. is_channel_enabled (default_preferences ''u-1'') c
               \<and> is_type_enabled (default_preferences ''u-1'') QUOTE_CREATED) [EMAIL, SMS] =
     [EMAIL]"
    by (simp add: is_channel_enabled_def is_type_enabled_def dict_get_def
          default_preferences_def)
  from create_notification_narrows_channels [OF n] obtain req en where
    r: "parse_channels (Some [''email'', ''sms'']) = Inr req" and
    e: "en = filter (\<lambda>c. is_channel_enabled (default_preferences ''u-1'') c
                       \<and> is_type_enabled (default_preferences ''u-1'') (n_notification_type n))
                req" and
    t: "NotificationType_of_value (upper ''quote_created'') = Some (n_notification_type n)" and
    c: "n_channels n = (if en = [] then [IN_APP] else en)" and
    a: "map nd_channel (n_delivery_attempts n) = n_channels n"
    by blast
  from r requested have "req = [EMAIL, SMS]" by simp
  moreover from t ntype have "n_notification_type n = QUOTE_CREATED" by simp
  ultimately have "en = [EMAIL]" using e enabled by simp
  with c a have "n_channels n = [EMAIL] \<and> map nd_channel (n_delivery_attempts n) = [EMAIL]"
    by simp
  with n show ?thesis by auto
qed

section \<open>Shipment status and displayed history\<close>









section \<open>Access to a booking\<close>




section \<open>Container allocation\<close>







end
